theory Spec2Isabelle
  imports Main
begin

section \<open>Python values the module handles\<close>

text \<open>
  A Python \<open>str\<close> is a \<open>string\<close>; each \<open>char\<close> stands for one code point below 256.
  A name, an environment value or an argument map that may be \<open>None\<close> is an option.
  An argument map is an association list from keys to values of any type \<open>'v\<close>.
\<close>

type_synonym 'v dict = "(string \<times> 'v) list"

text \<open>Truth value of \<open>not name\<close>: \<open>None\<close> and the empty string are falsy.\<close>

definition truthy_str :: "string option \<Rightarrow> bool" where
  "truthy_str s = (case s of None \<Rightarrow> False | Some v \<Rightarrow> v \<noteq> [])"

text \<open>Truth value of an argument map: \<open>None\<close> and the empty dict are falsy.\<close>

definition truthy_dict :: "'v dict option \<Rightarrow> bool" where
  "truthy_dict d = (case d of None \<Rightarrow> False | Some m \<Rightarrow> m \<noteq> [])"

text \<open>\<open>str(x)\<close> for a name that is a string or \<open>None\<close>.\<close>

definition py_str :: "string option \<Rightarrow> string" where
  "py_str s = (case s of None \<Rightarrow> ''None'' | Some v \<Rightarrow> v)"

text \<open>\<open>sep.join(xs)\<close>.\<close>

fun str_join :: "string \<Rightarrow> string list \<Rightarrow> string" where
  "str_join sep [] = []"
| "str_join sep [x] = x"
| "str_join sep (x # y # ys) = x @ sep @ str_join sep (y # ys)"

text \<open>
  \<open>repr\<close> of a string, as \<open>str.format\<close> prints the items of a list: the quote is the
  single quote unless the string holds a single quote and no double quote; the quote and
  the backslash are escaped, tab, newline and carriage return are written \<open>\t\<close>,
  \<open>\n\<close>, \<open>\r\<close>, and every other unprintable code point as \<open>\xhh\<close>.
\<close>

definition hex_digit :: "nat \<Rightarrow> char" where
  "hex_digit n = ''0123456789abcdef'' ! (n mod 16)"

definition hex_escape :: "char \<Rightarrow> string" where
  "hex_escape ch =
     [CHR 0x5C, CHR ''x'', hex_digit (of_char ch div 16), hex_digit (of_char ch mod 16)]"

definition printable_latin1 :: "char \<Rightarrow> bool" where
  "printable_latin1 ch =
     (let n = (of_char ch :: nat) in
        (32 \<le> n \<and> n < 127) \<or> (161 \<le> n \<and> n \<noteq> 173))"

definition repr_char :: "char \<Rightarrow> char \<Rightarrow> string" where
  "repr_char quote ch =
     (if ch = quote \<or> ch = CHR 0x5C then [CHR 0x5C, ch]
      else if ch = CHR 0x09 then [CHR 0x5C, CHR ''t'']
      else if ch = CHR 0x0A then [CHR 0x5C, CHR ''n'']
      else if ch = CHR 0x0D then [CHR 0x5C, CHR ''r'']
      else if printable_latin1 ch then [ch]
      else hex_escape ch)"

definition py_repr :: "string \<Rightarrow> string" where
  "py_repr s =
     (let quote = (if CHR 0x27 \<in> set s \<and> CHR 0x22 \<notin> set s then CHR 0x22 else CHR 0x27)
      in quote # concat (map (repr_char quote) s) @ [quote])"

text \<open>\<open>str(xs)\<close> for a list of strings.\<close>

definition str_of_list :: "string list \<Rightarrow> string" where
  "str_of_list xs = ''['' @ str_join '', '' (map py_repr xs) @ '']''"

text \<open>The values an info map holds.\<close>

datatype pyval = PyStr string | PyBool bool | PyNone

text \<open>\<open>d[k] = v\<close> on an ordered dict: a key already there keeps its place.\<close>

fun dict_set :: "(string \<times> 'a) list \<Rightarrow> string \<Rightarrow> 'a \<Rightarrow> (string \<times> 'a) list" where
  "dict_set [] k v = [(k, v)]"
| "dict_set ((k', v') # d) k v = (if k' = k then (k, v) # d else (k', v') # dict_set d k v)"

section \<open>Exceptions\<close>

text \<open>
  The exceptions of \<open>opentimelineio.exceptions\<close> that the module raises or lets through,
  the built-in ones its expressions raise, and \<open>PluginError\<close> for any other exception
  of a plugin. Each carries its message.
\<close>

datatype error =
    NotSupportedError string
  | NoDefaultMediaLinkerError string
  | CannotLinkMediaError string
  | KeyError string
  | TypeError string
  | AttributeError string
  | PluginError string

section \<open>Policies, plugins and the process state\<close>

text \<open>class \<open>MediaLinkingPolicy\<close>.\<close>

definition DoNotLinkMedia :: string where
  "DoNotLinkMedia = ''__do_not_link_media''"

definition ForceDefaultLinker :: string where
  "ForceDefaultLinker = ''__default''"

definition OTIO_DEFAULT_MEDIA_LINKER :: string where
  "OTIO_DEFAULT_MEDIA_LINKER = ''OTIO_DEFAULT_MEDIA_LINKER''"

text \<open>
  class \<open>MediaLinker\<close>: the three constructor arguments (each \<open>None\<close> by default), and
  what the base class \<open>plugins.PythonPlugin\<close> supplies, taken as parameters of the
  plugin: \<open>execute_function\<close> is
  \<open>self._execute_function("link_media_reference", in_clip=..., media_linker_argument_map=...)\<close>,
  the call of the plugin's entry point, which returns a value or raises;
  \<open>link_doc\<close> is the outcome of \<open>inspect.getdoc(self.module().link_media_reference)\<close>:
  the documentation of the entry point or \<open>None\<close>, or the exception of the expression
  (\<open>AttributeError\<close> when the module has no \<open>link_media_reference\<close>);
  \<open>base_info\<close> is the ordered dict of \<open>super().plugin_info_map()\<close>.
  \<open>'c\<close> is the type of clips, \<open>'m\<close> of what a plugin returns.
\<close>

record ('c, 'v, 'm) MediaLinker =
  name :: "string option"
  execution_scope :: "string option"
  filepath :: "string option"
  execute_function :: "'c \<Rightarrow> 'v dict option \<Rightarrow> error + 'm"
  link_doc :: "error + string option"
  base_info :: "(string \<times> pyval) list"

text \<open>
  What the module reads of the process: \<open>os.environ\<close> and the list
  \<open>plugins.ActiveManifest().media_linkers\<close>.
\<close>

record ('c, 'v, 'm) process =
  environ :: "string \<Rightarrow> string option"
  media_linkers :: "('c, 'v, 'm) MediaLinker list"

text \<open>
  The calls the module makes outside itself, in order: a read of an environment variable,
  a lookup by name in the manifest, a read of the manifest's list of media linkers, and
  a call of a plugin's entry point with a clip and an argument map.
\<close>

datatype ('c, 'v, 'm) event =
    EnvironRead string
  | ManifestFromName string
  | ManifestMediaLinkers
  | ExecuteFunction "('c, 'v, 'm) MediaLinker" 'c "'v dict option"

text \<open>What \<open>linked_media_reference\<close> returns: the clip it was given, or the plugin's result.\<close>

datatype ('c, 'm) linked = TargetClip 'c | PluginResult 'm

section \<open>The manifest\<close>

text \<open>
  Modelled from the spec: \<open>plugins.ActiveManifest().from_name(name, kind_list="media_linkers")\<close>
  is not among the sources. The spec gives
  \<open>LinkerRegistry.lookup(name) -> LinkerDescriptor | fails(UnsupportedLinkerError)\<close>, which
  fails when the name is not a known registered linker; the descriptor found is the first
  media linker of the manifest with that name.
\<close>

definition manifest_from_name ::
  "('c, 'v, 'm) process \<Rightarrow> string \<Rightarrow> error + ('c, 'v, 'm) MediaLinker" where
  "manifest_from_name w n =
     (case find (\<lambda>thing. name thing = Some n) (media_linkers w) of
        None \<Rightarrow> Inl (NotSupportedError n)
      | Some thing \<Rightarrow> Inr thing)"

section \<open>The module\<close>

definition available_media_linker_names ::
  "('c, 'v, 'm) process \<Rightarrow> string list \<times> ('c, 'v, 'm) event list" where
  "available_media_linker_names w =
     (map (\<lambda>adp. py_str (name adp)) (media_linkers w), [ManifestMediaLinkers])"

definition not_supported_message :: "string \<Rightarrow> string list \<Rightarrow> string" where
  "not_supported_message n names =
     ''media linker not supported: '' @ n @ '', available: '' @ str_of_list names"

definition from_name ::
  "('c, 'v, 'm) process \<Rightarrow> string option \<Rightarrow>
     (error + ('c, 'v, 'm) MediaLinker option) \<times> ('c, 'v, 'm) event list" where
  "from_name w name0 =
     (let (name1, t1) =
            (if name0 = Some ForceDefaultLinker \<or> \<not> truthy_str name0
             then (environ w OTIO_DEFAULT_MEDIA_LINKER, [EnvironRead OTIO_DEFAULT_MEDIA_LINKER])
             else (name0, []))
      in case name1 of
           None \<Rightarrow> (Inr None, t1)
         | Some n \<Rightarrow>
             if n = [] then (Inr None, t1)
             else (case manifest_from_name w n of
                     Inr thing \<Rightarrow> (Inr (Some thing), t1 @ [ManifestFromName n])
                   | Inl (NotSupportedError _) \<Rightarrow>
                       (let (names, t2) = available_media_linker_names w
                        in (Inl (NotSupportedError (not_supported_message n names)),
                            t1 @ [ManifestFromName n] @ t2))
                   | Inl e \<Rightarrow> (Inl e, t1 @ [ManifestFromName n])))"

definition default_media_linker :: "('c, 'v, 'm) process \<Rightarrow> error + string" where
  "default_media_linker w =
     (case environ w OTIO_DEFAULT_MEDIA_LINKER of
        Some v \<Rightarrow> Inr v
      | None \<Rightarrow>
          Inl (NoDefaultMediaLinkerError
                 ''No default Media Linker set in $OTIO_DEFAULT_MEDIA_LINKER''))"

text \<open>\<open>MediaLinker.link_media_reference\<close>.\<close>

definition link_media_reference ::
  "('c, 'v, 'm) MediaLinker \<Rightarrow> 'c \<Rightarrow> 'v dict option \<Rightarrow>
     (error + 'm) \<times> ('c, 'v, 'm) event list" where
  "link_media_reference self in_clip media_linker_argument_map =
     (let arg = (if truthy_dict media_linker_argument_map
                 then media_linker_argument_map else Some [])
      in (execute_function self in_clip arg, [ExecuteFunction self in_clip arg]))"

text \<open>
  \<open>linked_media_reference\<close>. A media linker object is truthy, so \<open>not media_linker\<close>
  holds exactly when \<open>from_name\<close> returned \<open>None\<close>.
\<close>

definition linked_media_reference ::
  "('c, 'v, 'm) process \<Rightarrow> 'c \<Rightarrow> string option \<Rightarrow> 'v dict option \<Rightarrow>
     (error + ('c, 'm) linked) \<times> ('c, 'v, 'm) event list" where
  "linked_media_reference w target_clip media_linker_name media_linker_argument_map =
     (case from_name w media_linker_name of
        (Inl e, t) \<Rightarrow> (Inl e, t)
      | (Inr None, t) \<Rightarrow> (Inr (TargetClip target_clip), t)
      | (Inr (Some media_linker), t) \<Rightarrow>
          (let arg = (if \<not> truthy_dict media_linker_argument_map
                      then Some [] else media_linker_argument_map);
               (r, t') = link_media_reference media_linker target_clip arg
           in (case r of Inl e \<Rightarrow> Inl e | Inr m \<Rightarrow> Inr (PluginResult m), t @ t')))"

text \<open>\<open>MediaLinker.is_default_linker\<close>.\<close>

definition is_default_linker :: "('c, 'v, 'm) process \<Rightarrow> ('c, 'v, 'm) MediaLinker \<Rightarrow> bool" where
  "is_default_linker w self =
     (Some (case environ w OTIO_DEFAULT_MEDIA_LINKER of None \<Rightarrow> [] | Some v \<Rightarrow> v) = name self)"

text \<open>
  \<open>MediaLinker.plugin_info_map\<close>. The documentation of the entry point is fetched first,
  and an exception of that expression ends the call. \<open>result['doc']\<close> raises \<open>KeyError\<close>
  when the base map has no such key, and \<open>"\n".join\<close> raises \<open>TypeError\<close> when that item
  is not a string.
\<close>

definition CURRENT_DEFAULT_KEY :: string where
  "CURRENT_DEFAULT_KEY = ''** CURRENT DEFAULT MEDIA LINKER''"

definition join_type_error :: "pyval \<Rightarrow> string" where
  "join_type_error v =
     ''sequence item 0: expected str instance, ''
       @ (case v of PyNone \<Rightarrow> ''NoneType'' | PyBool _ \<Rightarrow> ''bool'' | PyStr _ \<Rightarrow> ''str'')
       @ '' found''"

definition plugin_info_map ::
  "('c, 'v, 'm) process \<Rightarrow> ('c, 'v, 'm) MediaLinker \<Rightarrow> error + (string \<times> pyval) list" where
  "plugin_info_map w self =
     (let result = base_info self
      in case link_doc self of
           Inl e \<Rightarrow> Inl e
         | Inr fn_doc \<Rightarrow>
             (let merged =
                    (case fn_doc of
                       None \<Rightarrow> Inr result
                     | Some f \<Rightarrow>
                         if f = [] then Inr result
                         else (case map_of result ''doc'' of
                                 None \<Rightarrow> Inl (KeyError ''doc'')
                               | Some (PyStr doc) \<Rightarrow>
                                   Inr (dict_set result ''doc''
                                          (PyStr (str_join [CHR 0x0A] [doc, [], f])))
                               | Some v \<Rightarrow> Inl (TypeError (join_type_error v))))
              in case merged of
                   Inl e \<Rightarrow> Inl e
                 | Inr result' \<Rightarrow>
                     Inr (if is_default_linker w self
                          then dict_set result' CURRENT_DEFAULT_KEY (PyBool True)
                          else result')))"

section \<open>The documentation merge as the specification words it\<close>

text \<open>
  The specification's \<open>describe\<close>: the descriptor's documentation first, the entry point's
  documentation after a blank line, appended only if present and non-empty, and no
  separator when either piece is omitted (\<open>None\<close>, or the empty string). Only the
  comparison with \<open>plugin_info_map\<close> uses it.
\<close>

definition merged_doc_spec :: "string option \<Rightarrow> string option \<Rightarrow> string" where
  "merged_doc_spec doc fn_doc =
     (let d = (case doc of None \<Rightarrow> [] | Some x \<Rightarrow> x);
          f = (case fn_doc of None \<Rightarrow> [] | Some x \<Rightarrow> x)
      in if f = [] then d
         else if d = [] then f
         else d @ [CHR 0x0A, CHR 0x0A] @ f)"

section \<open>A site and its plugins\<close>

text \<open>
  Concrete plugins and processes on which the theorems below are run. Clips, argument
  values and media references are strings here. \<open>studio_v1\<close> returns the path of the
  clip under the roots it is given, \<open>offline\<close> always raises \<open>CannotLinkMediaError\<close>,
  \<open>unnamed\<close> is a plugin whose name is the empty string, \<open>undocumented\<close> one whose
  module has no documentation (the base map holds \<open>None\<close> under \<open>doc\<close>), and
  \<open>blank_doc\<close> one whose module documentation is the empty string.
\<close>

definition studio_v1 :: "(string, string, string) MediaLinker" where
  "studio_v1 =
     \<lparr> name = Some ''studio-v1'', execution_scope = Some ''in process'',
       filepath = Some ''studio_v1.py'',
       execute_function =
         (\<lambda>in_clip arg.
            Inr (concat (map snd (case arg of None \<Rightarrow> [] | Some m \<Rightarrow> m)) @ ''/'' @ in_clip)),
       link_doc = Inr (Some ''Link against the studio store.''),
       base_info = [(''name'', PyStr ''studio-v1''), (''doc'', PyStr ''Studio linker.''),
                    (''path'', PyStr ''studio_v1.py'')] \<rparr>"

definition offline :: "(string, string, string) MediaLinker" where
  "offline =
     \<lparr> name = Some ''offline'', execution_scope = Some ''in process'',
       filepath = Some ''offline.py'',
       execute_function = (\<lambda>in_clip arg. Inl (CannotLinkMediaError (''no media for '' @ in_clip))),
       link_doc = Inr None,
       base_info = [(''name'', PyStr ''offline''), (''doc'', PyStr ''Always fails.'')] \<rparr>"

definition unnamed :: "(string, string, string) MediaLinker" where
  "unnamed =
     \<lparr> name = Some [], execution_scope = None, filepath = None,
       execute_function = (\<lambda>in_clip arg. Inr in_clip),
       link_doc = Inr (Some ''Link the clip.''),
       base_info = [(''name'', PyStr []), (''doc'', PyStr [])] \<rparr>"

definition undocumented :: "(string, string, string) MediaLinker" where
  "undocumented =
     \<lparr> name = Some ''bare'', execution_scope = None, filepath = Some ''bare.py'',
       execute_function = (\<lambda>in_clip arg. Inr in_clip),
       link_doc = Inr (Some ''Link the clip.''),
       base_info = [(''name'', PyStr ''bare''), (''doc'', PyNone)] \<rparr>"

definition blank_doc :: "(string, string, string) MediaLinker" where
  "blank_doc =
     \<lparr> name = Some ''blank'', execution_scope = None, filepath = Some ''blank.py'',
       execute_function = (\<lambda>in_clip arg. Inr in_clip),
       link_doc = Inr (Some ''Link the clip.''),
       base_info = [(''name'', PyStr ''blank''), (''doc'', PyStr [])] \<rparr>"

text \<open>
  The process whose manifest holds \<open>studio_v1\<close> and \<open>offline\<close>, with the default-linker
  variable unset (\<open>None\<close>) or set to the given value, and no other variable.
\<close>

definition site :: "string option \<Rightarrow> (string, string, string) process" where
  "site default_linker =
     \<lparr> environ = (\<lambda>k. if k = OTIO_DEFAULT_MEDIA_LINKER then default_linker else None),
       media_linkers = [studio_v1, offline] \<rparr>"

section \<open>Facts about the lookup\<close>

lemma manifest_from_name_error:
  "manifest_from_name w n = Inl e \<Longrightarrow> e = NotSupportedError n"
  by (auto simp: manifest_from_name_def split: option.splits)

lemma manifest_from_name_unregistered:
  "Some n \<notin> name ` set (media_linkers w) \<Longrightarrow>
   manifest_from_name w n = Inl (NotSupportedError n)"
  by (force simp: manifest_from_name_def find_None_iff image_iff split: option.splits)

text \<open>A name that is neither the default policy nor empty is looked up as it is.\<close>

lemma from_name_explicit:
  "n \<noteq> ForceDefaultLinker \<Longrightarrow> n \<noteq> [] \<Longrightarrow>
   from_name w (Some n) =
     (case manifest_from_name w n of
        Inr thing \<Rightarrow> (Inr (Some thing), [ManifestFromName n])
      | Inl e \<Rightarrow>
          (Inl (NotSupportedError
                  (not_supported_message n (fst (available_media_linker_names w)))),
           [ManifestFromName n, ManifestMediaLinkers]))"
  by (auto simp: from_name_def truthy_str_def available_media_linker_names_def
      split: sum.splits error.splits dest: manifest_from_name_error)

text \<open>The default policy and a falsy name read the environment and look its value up.\<close>

lemma from_name_default:
  "name0 = Some ForceDefaultLinker \<or> \<not> truthy_str name0 \<Longrightarrow>
   from_name w name0 =
     (case environ w OTIO_DEFAULT_MEDIA_LINKER of
        None \<Rightarrow> (Inr None, [EnvironRead OTIO_DEFAULT_MEDIA_LINKER])
      | Some n \<Rightarrow>
          if n = [] then (Inr None, [EnvironRead OTIO_DEFAULT_MEDIA_LINKER])
          else (case manifest_from_name w n of
                  Inr thing \<Rightarrow>
                    (Inr (Some thing),
                     [EnvironRead OTIO_DEFAULT_MEDIA_LINKER, ManifestFromName n])
                | Inl e \<Rightarrow>
                    (Inl (NotSupportedError
                            (not_supported_message n (fst (available_media_linker_names w)))),
                     [EnvironRead OTIO_DEFAULT_MEDIA_LINKER, ManifestFromName n,
                      ManifestMediaLinkers])))"
  by (auto simp: from_name_def available_media_linker_names_def
      split: sum.splits error.splits option.splits dest: manifest_from_name_error)

lemma from_name_not_cannot_link:
  "fst (from_name w name0) \<noteq> Inl (CannotLinkMediaError m)"
  by (cases "name0 = Some ForceDefaultLinker \<or> \<not> truthy_str name0")
     (auto simp: from_name_default from_name_explicit truthy_str_def
        split: option.splits sum.splits)

lemma from_name_no_execute:
  "ExecuteFunction l c a \<notin> set (snd (from_name w name0))"
  by (cases "name0 = Some ForceDefaultLinker \<or> \<not> truthy_str name0")
     (auto simp: from_name_default from_name_explicit truthy_str_def
        split: option.splits sum.splits)

text \<open>Evaluation of the lookups on the site.\<close>

lemmas site_defs =
  site_def studio_v1_def offline_def manifest_from_name_def
  ForceDefaultLinker_def OTIO_DEFAULT_MEDIA_LINKER_def

lemma site_studio_v1: "manifest_from_name (site e) ''studio-v1'' = Inr studio_v1"
  by (simp add: site_defs)

lemma site_offline: "manifest_from_name (site e) ''offline'' = Inr offline"
  by (simp add: site_defs)

section \<open>The claims\<close>

subsection \<open>C1: the do-not-link policy\<close>

text \<open>
  C1 says that \<open>linked_media_reference(c, DoNotLinkMedia, {})\<close> returns the clip unchanged,
  with no lookup in the registry and no call of a plugin. \<open>from_name\<close> compares the name
  with \<open>ForceDefaultLinker\<close> only (its comment reads "make this handle the enums"), so the
  name \<open>__do_not_link_media\<close> is looked up in the manifest like any other name. On the
  site, where no plugin has that name, the call raises \<open>NotSupportedError\<close> after one
  lookup and one read of the available names.
\<close>

theorem linked_media_reference_DoNotLinkMedia_raises:
  "linked_media_reference (site None) ''clip-1'' (Some DoNotLinkMedia) (Some [])
     = (Inl (NotSupportedError
               (''media linker not supported: __do_not_link_media, available: [''
                  @ [CHR 0x27] @ ''studio-v1'' @ [CHR 0x27] @ '', ''
                  @ [CHR 0x27] @ ''offline'' @ [CHR 0x27] @ '']'')),
        [ManifestFromName ''__do_not_link_media'', ManifestMediaLinkers])"
  by (simp add: linked_media_reference_def from_name_def truthy_str_def site_defs
      DoNotLinkMedia_def available_media_linker_names_def not_supported_message_def str_of_list_def
      py_repr_def repr_char_def printable_latin1_def py_str_def Let_def)

subsection \<open>C2: a registered name\<close>

text \<open>
  C2: for every registered linker name \<open>n\<close>, clip \<open>c\<close> and argument map \<open>args\<close>,
  \<open>linked_media_reference(c, n, args)\<close> calls the link capability of exactly the descriptor
  registered under \<open>n\<close>, exactly once, passing \<open>c\<close> and \<open>args\<close> unmodified, and returns
  exactly what that call returns (its value, or the exception it raises).
  A registered name is one the manifest's lookup finds; by the data model it is neither the
  default policy's sentinel nor the empty string. The calls made are the lookup of \<open>n\<close>
  and one call of the descriptor found, and nothing else.
\<close>

theorem linked_media_reference_registered:
  assumes "n \<noteq> ForceDefaultLinker" and "n \<noteq> []"
    and "manifest_from_name w n = Inr d"
  shows "linked_media_reference w c (Some n) (Some args) =
           ((case execute_function d c (Some args) of
               Inl e \<Rightarrow> Inl e
             | Inr m \<Rightarrow> Inr (PluginResult m)),
            [ManifestFromName n, ExecuteFunction d c (Some args)])"
  using assms
  by (simp add: linked_media_reference_def from_name_explicit link_media_reference_def
      truthy_dict_def Let_def)

theorem linked_media_reference_registered_witness:
  "''studio-v1'' \<noteq> ForceDefaultLinker \<and> ''studio-v1'' \<noteq> []
   \<and> manifest_from_name (site None) ''studio-v1'' = Inr studio_v1
   \<and> linked_media_reference (site None) ''clip-1'' (Some ''studio-v1'')
         (Some [(''root'', ''/mnt/media'')])
       = (Inr (PluginResult ''/mnt/media/clip-1''),
          [ManifestFromName ''studio-v1'',
           ExecuteFunction studio_v1 ''clip-1'' (Some [(''root'', ''/mnt/media'')])])"
proof -
  have h1: "''studio-v1'' \<noteq> ForceDefaultLinker" by (simp add: ForceDefaultLinker_def)
  have h2: "''studio-v1'' \<noteq> []" by simp
  have r: "execute_function studio_v1 ''clip-1'' (Some [(''root'', ''/mnt/media'')])
             = Inr ''/mnt/media/clip-1''"
    by (simp add: studio_v1_def)
  show ?thesis
    using linked_media_reference_registered [OF h1 h2 site_studio_v1,
        of None "''clip-1''" "[(''root'', ''/mnt/media'')]"]
    by (simp add: h1 site_studio_v1 r)
qed

subsection \<open>C3: an unregistered name\<close>

text \<open>
  C3: for every name \<open>n\<close> that is not the name of a registered linker, and is neither the
  default policy's sentinel nor empty, \<open>linked_media_reference(c, n, {})\<close> raises
  \<open>NotSupportedError\<close>, whose message carries \<open>n\<close> and the list of the available linker
  names, read from the manifest of the process at the time of the call, after the failed
  lookup. It holds for every argument map.
\<close>

theorem linked_media_reference_unregistered:
  assumes "n \<noteq> ForceDefaultLinker" and "n \<noteq> []"
    and "Some n \<notin> name ` set (media_linkers w)"
  shows "linked_media_reference w c (Some n) args =
           (Inl (NotSupportedError
                   (''media linker not supported: '' @ n @ '', available: ''
                      @ str_of_list (fst (available_media_linker_names w)))),
            [ManifestFromName n, ManifestMediaLinkers])"
  using assms
  by (simp add: linked_media_reference_def from_name_explicit manifest_from_name_unregistered
      not_supported_message_def)

theorem linked_media_reference_unregistered_witness:
  "''anything'' \<noteq> ForceDefaultLinker \<and> ''anything'' \<noteq> []
   \<and> Some ''anything'' \<notin> name ` set (media_linkers (site None))
   \<and> fst (available_media_linker_names (site None)) = [''studio-v1'', ''offline'']
   \<and> linked_media_reference (site None) ''clip-1'' (Some ''anything'') (Some [])
       = (Inl (NotSupportedError
                 (''media linker not supported: anything, available: ''
                    @ str_of_list [''studio-v1'', ''offline''])),
          [ManifestFromName ''anything'', ManifestMediaLinkers])"
proof -
  have h1: "''anything'' \<noteq> ForceDefaultLinker" by (simp add: ForceDefaultLinker_def)
  have h2: "''anything'' \<noteq> []" by simp
  have h3: "Some ''anything'' \<notin> name ` set (media_linkers (site None))"
    by (simp add: site_defs)
  have names: "fst (available_media_linker_names (site None)) = [''studio-v1'', ''offline'']"
    by (simp add: available_media_linker_names_def site_defs py_str_def)
  show ?thesis
    using linked_media_reference_unregistered [OF h1 h2 h3, of "''clip-1''" "Some []"]
    by (simp add: h1 h3 names)
qed

subsection \<open>C4: the default policy with no default configured\<close>

text \<open>
  C4: for every clip \<open>c\<close>, when the requested name is the \<open>ForceDefaultLinker\<close> sentinel, or
  absent or empty, and the environment's default variable yields nothing (it is unset, or
  set to the empty string), \<open>linked_media_reference\<close> returns \<open>c\<close> unchanged. That is a
  normal return, not an exception, and the only call made outside the module is the read
  of the variable: there is no lookup in the registry.
\<close>

theorem linked_media_reference_no_default:
  assumes "name0 = Some ForceDefaultLinker \<or> name0 = None \<or> name0 = Some []"
    and "environ w OTIO_DEFAULT_MEDIA_LINKER = None
         \<or> environ w OTIO_DEFAULT_MEDIA_LINKER = Some []"
  shows "linked_media_reference w c name0 args =
           (Inr (TargetClip c), [EnvironRead OTIO_DEFAULT_MEDIA_LINKER])"
proof -
  from assms(1) have "name0 = Some ForceDefaultLinker \<or> \<not> truthy_str name0"
    by (auto simp: truthy_str_def)
  then show ?thesis
    using assms(2) by (auto simp: linked_media_reference_def from_name_default)
qed

theorem linked_media_reference_no_default_witness:
  "environ (site None) OTIO_DEFAULT_MEDIA_LINKER = None
   \<and> linked_media_reference (site None) ''clip-1'' (Some ForceDefaultLinker) (Some [])
       = (Inr (TargetClip ''clip-1''), [EnvironRead ''OTIO_DEFAULT_MEDIA_LINKER''])"
proof -
  have h: "environ (site None) OTIO_DEFAULT_MEDIA_LINKER = None" by (simp add: site_def)
  show ?thesis
    using linked_media_reference_no_default
      [OF disjI1 [OF refl] disjI1 [OF h], of "''clip-1''" "Some []"]
    by (simp add: site_def OTIO_DEFAULT_MEDIA_LINKER_def)
qed

subsection \<open>C5: when the environment's default is substituted\<close>

text \<open>
  C5: name resolution substitutes the environment's default exactly when the requested name
  equals the \<open>ForceDefaultLinker\<close> sentinel or is empty or absent. The environment is read
  in exactly those cases; in every other case the name requested is the one looked up;
  and when the variable holds a non-empty value \<open>v\<close>, that value is the one looked up.
  In particular, when \<open>v\<close> is a registered name such as \<open>studio-v1\<close>,
  \<open>linked_media_reference(clip, ForceDefaultLinker, args)\<close> calls that linker, once, and
  returns its result.
\<close>

theorem from_name_default_substitution:
  "(EnvironRead OTIO_DEFAULT_MEDIA_LINKER \<in> set (snd (from_name w name0)))
     = (name0 = Some ForceDefaultLinker \<or> \<not> truthy_str name0)
   \<and> (\<not> (name0 = Some ForceDefaultLinker \<or> \<not> truthy_str name0) \<longrightarrow>
        (\<exists>n t. name0 = Some n \<and> snd (from_name w name0) = ManifestFromName n # t))
   \<and> ((name0 = Some ForceDefaultLinker \<or> \<not> truthy_str name0)
        \<and> environ w OTIO_DEFAULT_MEDIA_LINKER = Some v \<and> v \<noteq> [] \<longrightarrow>
        (\<exists>t. snd (from_name w name0)
               = EnvironRead OTIO_DEFAULT_MEDIA_LINKER # ManifestFromName v # t))
   \<and> ((name0 = Some ForceDefaultLinker \<or> \<not> truthy_str name0)
        \<and> environ w OTIO_DEFAULT_MEDIA_LINKER = Some v \<and> v \<noteq> []
        \<and> manifest_from_name w v = Inr d \<longrightarrow>
        linked_media_reference w c name0 (Some args) =
          ((case execute_function d c (Some args) of
              Inl e \<Rightarrow> Inl e
            | Inr m \<Rightarrow> Inr (PluginResult m)),
           [EnvironRead OTIO_DEFAULT_MEDIA_LINKER, ManifestFromName v,
            ExecuteFunction d c (Some args)]))"
proof (cases "name0 = Some ForceDefaultLinker \<or> \<not> truthy_str name0")
  case True
  then show ?thesis
    by (auto simp: from_name_default linked_media_reference_def link_media_reference_def
        truthy_dict_def Let_def split: option.splits sum.splits)
next
  case False
  then obtain n where n: "name0 = Some n" "n \<noteq> ForceDefaultLinker" "n \<noteq> []"
    by (auto simp: truthy_str_def split: option.splits)
  then show ?thesis
    using False by (auto simp: from_name_explicit split: sum.splits)
qed

theorem from_name_default_substitution_witness:
  "environ (site (Some ''studio-v1'')) OTIO_DEFAULT_MEDIA_LINKER = Some ''studio-v1''
   \<and> manifest_from_name (site (Some ''studio-v1'')) ''studio-v1'' = Inr studio_v1
   \<and> EnvironRead OTIO_DEFAULT_MEDIA_LINKER
         \<in> set (snd (from_name (site (Some ''studio-v1'')) (Some ForceDefaultLinker)))
   \<and> EnvironRead OTIO_DEFAULT_MEDIA_LINKER
         \<notin> set (snd (from_name (site (Some ''studio-v1'')) (Some ''offline'')))
   \<and> linked_media_reference (site (Some ''studio-v1'')) ''clip-1''
         (Some ForceDefaultLinker) (Some [])
       = (Inr (PluginResult ''/clip-1''),
          [EnvironRead OTIO_DEFAULT_MEDIA_LINKER, ManifestFromName ''studio-v1'',
           ExecuteFunction studio_v1 ''clip-1'' (Some [])])"
proof -
  have env: "environ (site (Some ''studio-v1'')) OTIO_DEFAULT_MEDIA_LINKER = Some ''studio-v1''"
    by (simp add: site_def)
  have r: "execute_function studio_v1 ''clip-1'' (Some []) = Inr ''/clip-1''"
    by (simp add: studio_v1_def)
  show ?thesis
    using from_name_default_substitution
        [where w = "site (Some ''studio-v1'')" and ?name0.0 = "Some ForceDefaultLinker"
           and v = "''studio-v1''" and d = studio_v1 and c = "''clip-1''" and args = "[]"]
      from_name_default_substitution
        [where w = "site (Some ''studio-v1'')" and ?name0.0 = "Some ''offline''"
           and v = "''studio-v1''" and d = studio_v1 and c = "''clip-1''" and args = "[]"]
    by (simp add: env site_studio_v1 r ForceDefaultLinker_def truthy_str_def)
qed

subsection \<open>C6: the strict query of the default\<close>

text \<open>
  C6 reads: \<open>default_media_linker()\<close> fails with \<open>NoDefaultMediaLinkerError\<close> exactly when
  the variable is absent, the empty string being treated as absent. The code indexes
  \<open>os.environ\<close> and catches \<open>KeyError\<close>, so only an unset variable fails: a variable set
  to the empty string is returned as it is.
\<close>

theorem default_media_linker_empty_string:
  "environ (site (Some [])) OTIO_DEFAULT_MEDIA_LINKER = Some []
   \<and> default_media_linker (site (Some [])) = Inr []
   \<and> default_media_linker (site (Some []))
       \<noteq> Inl (NoDefaultMediaLinkerError
                ''No default Media Linker set in $OTIO_DEFAULT_MEDIA_LINKER'')"
  by (simp add: default_media_linker_def site_def)

text \<open>
  C6 as amended: \<open>default_media_linker()\<close> raises \<open>NoDefaultMediaLinkerError\<close> exactly when
  the variable is unset, and returns the variable's value otherwise, for every value, the
  empty string included: it is returned, not treated as absent.
\<close>

theorem default_media_linker_strict:
  "((\<exists>msg. default_media_linker w = Inl (NoDefaultMediaLinkerError msg))
      = (environ w OTIO_DEFAULT_MEDIA_LINKER = None))
   \<and> ((\<exists>e. default_media_linker w = Inl e)
      = (environ w OTIO_DEFAULT_MEDIA_LINKER = None))
   \<and> (\<forall>v. environ w OTIO_DEFAULT_MEDIA_LINKER = Some v \<longrightarrow> default_media_linker w = Inr v)"
  by (auto simp: default_media_linker_def split: option.splits)

theorem default_media_linker_strict_witness:
  "environ (site None) OTIO_DEFAULT_MEDIA_LINKER = None
   \<and> (\<exists>msg. default_media_linker (site None) = Inl (NoDefaultMediaLinkerError msg))
   \<and> environ (site (Some ''studio-v1'')) OTIO_DEFAULT_MEDIA_LINKER = Some ''studio-v1''
   \<and> default_media_linker (site (Some ''studio-v1'')) = Inr ''studio-v1''"
proof -
  have unset: "environ (site None) OTIO_DEFAULT_MEDIA_LINKER = None"
    by (simp add: site_def)
  have set: "environ (site (Some ''studio-v1'')) OTIO_DEFAULT_MEDIA_LINKER = Some ''studio-v1''"
    by (simp add: site_def)
  show ?thesis
    using default_media_linker_strict [of "site None"]
      default_media_linker_strict [of "site (Some ''studio-v1'')"]
    by (simp add: unset set)
qed

subsection \<open>C7: a plugin's failure is not caught\<close>

text \<open>
  C7: neither \<open>linked_media_reference\<close> nor \<open>MediaLinker.link_media_reference\<close> catches an
  exception of the plugin's entry point. Whatever the entry point raises,
  \<open>CannotLinkMediaError\<close> included, is what \<open>linked_media_reference\<close> raises, with the same
  message; and when \<open>linked_media_reference\<close> raises \<open>CannotLinkMediaError\<close>, the linker it
  resolved raised exactly that: the module never raises it itself.
\<close>

theorem plugin_failure_propagates:
  "(fst (from_name w nm) = Inr (Some d)
      \<and> execute_function d c (Some (case arg of None \<Rightarrow> [] | Some a \<Rightarrow> a)) = Inl e \<longrightarrow>
      fst (linked_media_reference w c nm arg) = Inl e)
   \<and> (fst (linked_media_reference w c nm arg) = Inl (CannotLinkMediaError m) \<longrightarrow>
        (\<exists>d'. fst (from_name w nm) = Inr (Some d')
           \<and> execute_function d' c (Some (case arg of None \<Rightarrow> [] | Some a \<Rightarrow> a))
               = Inl (CannotLinkMediaError m)))
   \<and> fst (link_media_reference d c arg)
       = execute_function d c (Some (case arg of None \<Rightarrow> [] | Some a \<Rightarrow> a))"
proof -
  have nf: "fst (from_name w nm) \<noteq> Inl (CannotLinkMediaError m)"
    by (rule from_name_not_cannot_link)
  show ?thesis
    using nf
    by (cases "from_name w nm")
       (auto simp: linked_media_reference_def link_media_reference_def truthy_dict_def Let_def
          split: option.splits sum.splits)
qed

theorem plugin_failure_propagates_witness:
  "fst (from_name (site None) (Some ''offline'')) = Inr (Some offline)
   \<and> execute_function offline ''clip-1'' (Some [])
       = Inl (CannotLinkMediaError ''no media for clip-1'')
   \<and> fst (linked_media_reference (site None) ''clip-1'' (Some ''offline'') None)
       = Inl (CannotLinkMediaError ''no media for clip-1'')"
proof -
  have f: "fst (from_name (site None) (Some ''offline'')) = Inr (Some offline)"
    by (simp add: from_name_explicit site_offline ForceDefaultLinker_def)
  have x: "execute_function offline ''clip-1'' (Some (case None of None \<Rightarrow> [] | Some a \<Rightarrow> a))
             = Inl (CannotLinkMediaError ''no media for clip-1'')"
    by (simp add: offline_def)
  have "fst (from_name (site None) (Some ''offline'')) = Inr (Some offline)
          \<and> execute_function offline ''clip-1'' (Some (case None of None \<Rightarrow> [] | Some a \<Rightarrow> a))
              = Inl (CannotLinkMediaError ''no media for clip-1'') \<longrightarrow>
        fst (linked_media_reference (site None) ''clip-1'' (Some ''offline'') None)
          = Inl (CannotLinkMediaError ''no media for clip-1'')"
    using plugin_failure_propagates
      [where w = "site None" and nm = "Some ''offline''" and d = offline
         and c = "''clip-1''" and arg = None and m = "[]"
         and e = "CannotLinkMediaError ''no media for clip-1''"]
    by (rule conjunct1)
  with f x have "fst (linked_media_reference (site None) ''clip-1'' (Some ''offline'') None)
          = Inl (CannotLinkMediaError ''no media for clip-1'')"
    by blast
  with f x show ?thesis by simp
qed

subsection \<open>C8: the plugin info map\<close>

text \<open>
  C8 says that \<open>plugin_info_map\<close> merges the descriptor's documentation with the
  documentation of the link entry point, the descriptor's first, separated by a blank
  line, the entry point's appended only if present and non-empty, with no spurious
  separator when either piece is omitted. The code guards the entry point's
  documentation (\<open>if fn_doc\<close>) but not the descriptor's: it joins
  \<open>[result['doc'], "", fn_doc]\<close> with newlines whatever \<open>result['doc']\<close> is. For
  \<open>undocumented\<close>, whose module has no documentation, the join raises \<open>TypeError\<close>, and
  for \<open>blank_doc\<close>, whose module documentation is the empty string, the merged
  documentation starts with the two newlines; the merge as the specification words it
  gives the entry point's documentation alone in both cases.
\<close>

theorem plugin_info_map_omitted_doc:
  "plugin_info_map (site None) undocumented
     = Inl (TypeError ''sequence item 0: expected str instance, NoneType found'')
   \<and> merged_doc_spec None (Some ''Link the clip.'') = ''Link the clip.''
   \<and> plugin_info_map (site None) blank_doc
       = Inr [(''name'', PyStr ''blank''),
              (''doc'', PyStr ([CHR 0x0A, CHR 0x0A] @ ''Link the clip.''))]
   \<and> merged_doc_spec (Some []) (Some ''Link the clip.'') = ''Link the clip.''"
  by (simp add: plugin_info_map_def is_default_linker_def undocumented_def blank_doc_def
      site_def merged_doc_spec_def join_type_error_def Let_def)

subsection \<open>C9: the plugin always receives a dictionary\<close>

text \<open>
  C9: the plugin's entry point is never called with an absent argument map. Every call of
  the entry point that \<open>linked_media_reference\<close> or \<open>MediaLinker.link_media_reference\<close>
  makes passes a dictionary: the caller's map when it is non-empty, and the empty
  dictionary when the caller's map is \<open>None\<close> or empty. Dictionaries are compared by
  content here; that the empty dictionary passed is a new object is not expressed.
\<close>

theorem entry_point_receives_dict:
  "(ExecuteFunction l c' a \<in> set (snd (linked_media_reference w c nm arg)) \<longrightarrow>
      a = Some (case arg of None \<Rightarrow> [] | Some m \<Rightarrow> m))
   \<and> (ExecuteFunction l c' a \<in> set (snd (link_media_reference self c arg)) \<longrightarrow>
      a = Some (case arg of None \<Rightarrow> [] | Some m \<Rightarrow> m))
   \<and> fst (link_media_reference self c arg)
       = execute_function self c (Some (case arg of None \<Rightarrow> [] | Some m \<Rightarrow> m))"
proof -
  have "ExecuteFunction l c' a \<notin> set (snd (from_name w nm))"
    by (rule from_name_no_execute)
  then show ?thesis
    by (cases "from_name w nm")
       (auto simp: linked_media_reference_def link_media_reference_def truthy_dict_def Let_def
          split: option.splits sum.splits)
qed

theorem entry_point_receives_dict_witness:
  "snd (linked_media_reference (site None) ''clip-1'' (Some ''studio-v1'') None)
     = [ManifestFromName ''studio-v1'', ExecuteFunction studio_v1 ''clip-1'' (Some [])]
   \<and> ExecuteFunction studio_v1 ''clip-1'' None
       \<notin> set (snd (linked_media_reference (site None) ''clip-1'' (Some ''studio-v1'') None))
   \<and> ExecuteFunction studio_v1 ''clip-1'' None
       \<notin> set (snd (link_media_reference studio_v1 ''clip-1'' None))"
proof -
  have t: "snd (linked_media_reference (site None) ''clip-1'' (Some ''studio-v1'') None)
             = [ManifestFromName ''studio-v1'', ExecuteFunction studio_v1 ''clip-1'' (Some [])]"
    by (simp add: linked_media_reference_def from_name_explicit site_studio_v1
        link_media_reference_def truthy_dict_def ForceDefaultLinker_def Let_def)
  have "(ExecuteFunction studio_v1 ''clip-1'' None
           \<in> set (snd (linked_media_reference (site None) ''clip-1'' (Some ''studio-v1'') None))
         \<longrightarrow> None = Some (case None of None \<Rightarrow> [] | Some m \<Rightarrow> (m :: string dict)))
       \<and> (ExecuteFunction studio_v1 ''clip-1'' None
           \<in> set (snd (link_media_reference studio_v1 ''clip-1'' None))
         \<longrightarrow> None = Some (case None of None \<Rightarrow> [] | Some m \<Rightarrow> (m :: string dict)))"
    using entry_point_receives_dict
      [where l = studio_v1 and c' = "''clip-1''" and a = None and w = "site None"
         and c = "''clip-1''" and nm = "Some ''studio-v1''" and arg = None
         and self = studio_v1]
    by blast
  then have "ExecuteFunction studio_v1 ''clip-1'' None
        \<notin> set (snd (linked_media_reference (site None) ''clip-1'' (Some ''studio-v1'') None))"
    and "ExecuteFunction studio_v1 ''clip-1'' None
        \<notin> set (snd (link_media_reference studio_v1 ''clip-1'' None))"
    by blast+
  with t show ?thesis by blast
qed

subsection \<open>C10: the default flag when no default is configured\<close>

text \<open>
  C10: when the environment's default variable is unset, \<open>is_default_linker()\<close> compares the
  linker's name with the empty string: it is \<open>False\<close> for every linker whose name is not
  the empty string, and \<open>True\<close> for a linker whose name is the empty string, which is
  reported as the current default although none is configured.
\<close>

theorem is_default_linker_unset:
  "environ w OTIO_DEFAULT_MEDIA_LINKER = None \<Longrightarrow>
   is_default_linker w l = (name l = Some [])"
  by (auto simp: is_default_linker_def)

theorem is_default_linker_unset_witness:
  "environ (site None) OTIO_DEFAULT_MEDIA_LINKER = None
   \<and> name unnamed = Some [] \<and> is_default_linker (site None) unnamed
   \<and> name studio_v1 = Some ''studio-v1'' \<and> \<not> is_default_linker (site None) studio_v1"
proof -
  have h: "environ (site None) OTIO_DEFAULT_MEDIA_LINKER = None"
    by (simp add: site_def)
  have u: "name unnamed = Some []" by (simp add: unnamed_def)
  have s: "name studio_v1 = Some ''studio-v1''" by (simp add: studio_v1_def)
  show ?thesis
    using is_default_linker_unset [OF h, of unnamed] is_default_linker_unset [OF h, of studio_v1]
    by (simp add: h u s)
qed

end
